theory Spec2Isabelle
  imports Main "HOL-Library.Multiset"
begin

section \<open>Errors and the Graph Service\<close>

text \<open>
  Python exceptions raised by the client. \<open>ServiceError\<close> stands for whatever
  \<open>format_response\<close> raises on a failed HTTP call.
\<close>

datatype error = ValueError | RuntimeError | IndexError | KeyError | AttributeError
  | MergeError | ServiceError

text \<open>Python truthiness of an optional string: \<open>None\<close> and \<open>''\<close> are falsy.\<close>

definition truthy :: "string option \<Rightarrow> bool" where
  "truthy v = (case v of None \<Rightarrow> False | Some s \<Rightarrow> s \<noteq> [])"

text \<open>\<open>'{}'.format(v)\<close> for an optional string: \<open>None\<close> prints as \<open>None\<close>.\<close>

definition format_opt :: "string option \<Rightarrow> string" where
  "format_opt v = (case v of None \<Rightarrow> ''None'' | Some s \<Rightarrow> s)"

section \<open>Node\<close>

text \<open>
  The instance variables of \<open>Node\<close>: \<open>_dcid\<close>, \<open>_name\<close>, \<open>_value\<close>, \<open>_types\<close>,
  \<open>_in_props\<close>, \<open>_out_props\<close>. The two property caches are dictionaries from a
  property name to a list of nodes, kept as association lists.
\<close>

datatype node = Node
  (n_dcid: "string option")
  (n_name: "string option")
  (n_value: "string option")
  (n_types: "string list")
  (n_in_props: "(string \<times> node list) list")
  (n_out_props: "(string \<times> node list) list")

text \<open>The \<open>node\<close> keyword argument: any Python object, which may or may not be a Node.\<close>

datatype node_arg = NotANode | IsNode node

text \<open>
  The keyword arguments of \<open>Node.__init__\<close>; a field is \<open>None\<close> when the key is
  absent from \<open>kwargs\<close>.
\<close>

record node_kwargs =
  kw_node :: "node_arg option"
  kw_id :: "string option"
  kw_dcid :: "string option"
  kw_value :: "string option"
  kw_name :: "string option"
  kw_types :: "string list option"

text \<open>The reply of the \<open>get_node\<close> endpoint: \<open>{name?, types?}\<close>.\<close>

record node_payload =
  p_name :: "string option"
  p_types :: "string list option"

text \<open>
  The reply of the \<open>get_property_value\<close> endpoint:
  \<open>{dcid: {property: [node kwargs]}}\<close>.
\<close>

type_synonym pv_payload = "(string \<times> (string \<times> node_kwargs list) list) list"

text \<open>The JSON body of a \<open>get_property_value\<close> request.\<close>

record pv_request =
  req_dcids :: "string option list"
  req_property :: string
  req_outgoing :: bool
  req_reload :: bool
  req_limit :: int
  req_value_type :: "string option"

text \<open>The HTTP requests a method sends, in order.\<close>

datatype request = GetNode string | GetPropertyValue pv_request

text \<open>
  The Graph Service behind \<open>requests\<close> and \<open>format_response\<close>: each endpoint either
  fails or returns its decoded payload.
\<close>

record service =
  get_node :: "string \<Rightarrow> error + node_payload"
  get_property_value :: "pv_request \<Rightarrow> error + pv_payload"

text \<open>
  The first step of \<open>Node.__init__\<close> after the copy-constructor case: the key
  \<open>id\<close> is copied to \<open>dcid\<close> when \<open>dcid\<close> is absent.
\<close>

definition id_alias :: "node_kwargs \<Rightarrow> node_kwargs" where
  "id_alias kwargs =
    (if kw_id kwargs \<noteq> None \<and> kw_dcid kwargs = None
     then kwargs\<lparr>kw_dcid := kw_id kwargs\<rparr> else kwargs)"

text \<open>
  \<open>Node.__init__\<close>, returning the requests sent and either the exception raised or
  the constructed node.
\<close>

definition node_init :: "service \<Rightarrow> node_kwargs \<Rightarrow> request list \<times> (error + node)" where
  "node_init svc kwargs0 =
    (case kw_node kwargs0 of
       Some arg \<Rightarrow>
         (case arg of
            NotANode \<Rightarrow> ([], Inl ValueError)
          | IsNode n \<Rightarrow>
              ([], Inr (Node (n_dcid n) (n_name n) (n_value n) (n_types n)
                          (n_in_props n) (n_out_props n))))
     | None \<Rightarrow>
         (let kwargs = id_alias kwargs0
          in if kw_dcid kwargs = None \<and> kw_value kwargs = None then ([], Inl ValueError)
             else if kw_dcid kwargs \<noteq> None \<and> kw_value kwargs \<noteq> None
               then ([], Inl ValueError)
             else
               (case kw_dcid kwargs of
                  Some d \<Rightarrow>
                    (if kw_name kwargs \<noteq> None \<and> kw_types kwargs \<noteq> None
                     then ([], Inr (Node (Some d) (kw_name kwargs) None
                                      (case kw_types kwargs of Some ts \<Rightarrow> ts | None \<Rightarrow> [])
                                      [] []))
                     else
                       (case get_node svc d of
                          Inl e \<Rightarrow> ([GetNode d], Inl e)
                        | Inr payload \<Rightarrow>
                            ([GetNode d],
                             Inr (Node (Some d)
                                    (case kw_name kwargs of
                                       Some nm \<Rightarrow> Some nm
                                     | None \<Rightarrow> p_name payload)
                                    None
                                    (case kw_types kwargs of
                                       Some ts \<Rightarrow> ts
                                     | None \<Rightarrow>
                                         (case p_types payload of
                                            Some ts \<Rightarrow> ts
                                          | None \<Rightarrow> []))
                                    [] []))))
                | None \<Rightarrow> ([], Inr (Node None None (kw_value kwargs) [] [] [])))))"

text \<open>\<open>Node.__eq__\<close>.\<close>

definition node_eq :: "node \<Rightarrow> node \<Rightarrow> bool" where
  "node_eq self other =
    (truthy (n_dcid self) \<and> truthy (n_dcid other) \<and> n_dcid self = n_dcid other)"

text \<open>\<open>Node.is_leaf\<close>.\<close>

definition is_leaf :: "node \<Rightarrow> bool" where
  "is_leaf self = truthy (n_value self)"

text \<open>The string that \<open>Node.__hash__\<close> hashes.\<close>

definition hash_key :: "node \<Rightarrow> string" where
  "hash_key self =
    (if is_leaf self then ''value:'' @ format_opt (n_value self)
     else ''dcid:'' @ format_opt (n_dcid self))"

text \<open>
  \<open>Node.__hash__\<close>; \<open>H\<close> is Python's hash of a string, which varies from one
  interpreter run to the next.
\<close>

definition node_hash :: "(string \<Rightarrow> int) \<Rightarrow> node \<Rightarrow> int" where
  "node_hash H self = H (hash_key self)"

text \<open>Keyword arguments with every key absent, and a service that always fails.\<close>

definition no_kwargs :: node_kwargs where
  "no_kwargs = \<lparr>kw_node = None, kw_id = None, kw_dcid = None, kw_value = None,
                 kw_name = None, kw_types = None\<rparr>"

definition failing_service :: service where
  "failing_service = \<lparr>get_node = (\<lambda>_. Inl ServiceError),
                       get_property_value = (\<lambda>_. Inl ServiceError)\<rparr>"

definition empty_service :: service where
  "empty_service = \<lparr>get_node = (\<lambda>_. Inr \<lparr>p_name = None, p_types = None\<rparr>),
                     get_property_value = (\<lambda>_. Inr [])\<rparr>"

section \<open>Dictionaries\<close>

text \<open>
  A Python dictionary as an association list with distinct keys: a lookup is
  \<open>map_of\<close>, and an assignment replaces the value of a key in place or appends a
  new key.
\<close>

fun dict_set :: "'k \<Rightarrow> 'v \<Rightarrow> ('k \<times> 'v) list \<Rightarrow> ('k \<times> 'v) list" where
  "dict_set k v [] = [(k, v)]"
| "dict_set k v ((k', v') # d) =
    (if k' = k then (k, v) # d else (k', v') # dict_set k v d)"

section \<open>Query\<close>

text \<open>
  The stored result of a query: the \<open>header\<close> list and, for every row, its list of
  \<open>cells\<close>. A cell is a dictionary, of which only the key \<open>value\<close> is read: \<open>None\<close>
  is a cell without that key.
\<close>

record query_result =
  header :: "string list"
  rows :: "string option list list"

text \<open>
  The inner loop of \<open>Query.rows\<close> over \<open>enumerate(row['cells'])\<close>, building
  \<open>row_map\<close>. Reading \<open>header[idx]\<close> with \<open>idx = len(header)\<close> raises IndexError.
\<close>

fun row_cells ::
  "string list \<Rightarrow> nat \<Rightarrow> string option list \<Rightarrow> (string \<times> string) list
    \<Rightarrow> error + (string \<times> string) list" where
  "row_cells hdr idx [] row_map = Inr row_map"
| "row_cells hdr idx (cell # cells) row_map =
    (if idx > length hdr then Inl RuntimeError
     else case cell of
       None \<Rightarrow> Inl RuntimeError
     | Some v \<Rightarrow>
         if idx < length hdr
         then row_cells hdr (Suc idx) cells (dict_set (hdr ! idx) v row_map)
         else Inl IndexError)"

text \<open>
  The outer loop of \<open>Query.rows\<close>: the row maps yielded, in order, and the exception
  that ended the iteration, if any.
\<close>

fun rows_from ::
  "string list \<Rightarrow> ((string \<times> string) list \<Rightarrow> bool) option \<Rightarrow> string option list list
    \<Rightarrow> (string \<times> string) list list \<times> error option" where
  "rows_from hdr select [] = ([], None)"
| "rows_from hdr select (row # rest) =
    (case row_cells hdr 0 row [] of
       Inl e \<Rightarrow> ([], Some e)
     | Inr row_map \<Rightarrow>
         (if (case select of None \<Rightarrow> True | Some f \<Rightarrow> f row_map)
          then (case rows_from hdr select rest of (ys, e) \<Rightarrow> (row_map # ys, e))
          else rows_from hdr select rest))"

text \<open>\<open>Query.rows\<close> on a query whose result is stored.\<close>

definition query_rows ::
  "query_result \<Rightarrow> ((string \<times> string) list \<Rightarrow> bool) option
    \<Rightarrow> (string \<times> string) list list \<times> error option" where
  "query_rows result select = rows_from (header result) select (rows result)"

section \<open>The property caches of a node\<close>

text \<open>
  A Python set of nodes is kept as the list of its elements, in the order in which
  they were inserted. Every node put into a set by this code is a freshly built
  object, so two elements are the same key exactly when their hashes agree and
  \<open>__eq__\<close> holds. The order in which \<open>list(s)\<close> lists a set depends on the hashes
  and is not the insertion order: it is the parameter \<open>L\<close> of the functions below,
  of which the theorems assume only that it permutes its argument.
\<close>

definition node_same :: "(string \<Rightarrow> int) \<Rightarrow> node \<Rightarrow> node \<Rightarrow> bool" where
  "node_same H x y = (node_hash H x = node_hash H y \<and> node_eq x y)"

definition set_add :: "(string \<Rightarrow> int) \<Rightarrow> node list \<Rightarrow> node \<Rightarrow> node list" where
  "set_add H s x = (if \<exists>y \<in> set s. node_same H y x then s else s @ [x])"

definition py_set :: "(string \<Rightarrow> int) \<Rightarrow> node list \<Rightarrow> node list" where
  "py_set H xs = foldl (set_add H) [] xs"

definition set_union :: "(string \<Rightarrow> int) \<Rightarrow> node list \<Rightarrow> node list \<Rightarrow> node list" where
  "set_union H s t = foldl (set_add H) s t"


text \<open>
  The list cached for a property; \<open>_update_props\<close> starts from the empty list
  when the property is not in the cache yet.
\<close>

definition cached :: "(string \<times> node list) list \<Rightarrow> string \<Rightarrow> node list" where
  "cached cache p = (case map_of cache p of None \<Rightarrow> [] | Some xs \<Rightarrow> xs)"


text \<open>One of the two loops of \<open>Node._update_props\<close>, over the keys of \<open>props\<close>.\<close>

definition update_cache ::
  "(string \<Rightarrow> int) \<Rightarrow> (node list \<Rightarrow> node list) \<Rightarrow> (string \<times> node list) list
    \<Rightarrow> (string \<times> node list) list \<Rightarrow> (string \<times> node list) list" where
  "update_cache H L cache props =
    foldl (\<lambda>c p. dict_set p (L (set_union H (py_set H (cached c p)) (cached props p))) c)
      cache (map fst props)"

text \<open>\<open>Node._update_props\<close>.\<close>

definition update_props ::
  "(string \<Rightarrow> int) \<Rightarrow> (node list \<Rightarrow> node list) \<Rightarrow> node \<Rightarrow> (string \<times> node list) list
    \<Rightarrow> (string \<times> node list) list \<Rightarrow> node" where
  "update_props H L self in_props out_props =
    Node (n_dcid self) (n_name self) (n_value self) (n_types self)
      (update_cache H L (n_in_props self) in_props)
      (update_cache H L (n_out_props self) out_props)"






section \<open>Example values\<close>

text \<open>A stand-in for Python's string hash, and a few nodes, used in the examples.\<close>

definition length_hash :: "string \<Rightarrow> int" where
  "length_hash s = int (length s)"

text \<open>The listing of a set that keeps the insertion order.\<close>

definition insertion_order :: "node list \<Rightarrow> node list" where
  "insertion_order s = s"

definition ca :: node where
  "ca = Node (Some ''geoId/06'') (Some ''California'') None [''State''] [] []"

definition us :: node where
  "us = Node (Some ''country/USA'') (Some ''USA'') None [''Country''] [] []"

definition us2 :: node where
  "us2 = Node (Some ''country/USA'') None None [] [] []"

definition leaf42 :: node where
  "leaf42 = Node None None (Some ''42'') [] [] []"

definition home :: node where
  "home = Node (Some ''geoId/0649670'') (Some ''Mountain View'') None [''City''] []
            [(''containedInPlace'', [us, leaf42])]"




section \<open>Data frames\<close>

text \<open>
  The part of a pandas DataFrame that \<open>Frame\<close> relies on: the column labels in
  order, and the rows, each with one cell per column. The row index is always the
  dense range, so it is not stored. \<open>NaN\<close> is the missing value.
\<close>

datatype cell = Str string | Num int | NaN

record dataframe =
  df_columns :: "string list"
  df_rows :: "cell list list"

text \<open>The elements of a list in order of first occurrence.\<close>

definition unique :: "'a list \<Rightarrow> 'a list" where
  "unique xs = rev (remdups (rev xs))"

text \<open>The cell of a row under a column label.\<close>

definition cell_at :: "string list \<Rightarrow> cell list \<Rightarrow> string \<Rightarrow> cell" where
  "cell_at cols row c = (case map_of (zip cols row) c of None \<Rightarrow> NaN | Some v \<Rightarrow> v)"

text \<open>
  The two shapes of \<open>data\<close> that \<open>Frame\<close> documents: a list of row dictionaries, or
  a dictionary from column name to the values of the column.
\<close>

datatype frame_data =
  Rows "(string \<times> cell) list list"
| Cols "(string \<times> cell list) list"

text \<open>
  \<open>pd.DataFrame(data)\<close>: rows give the union of their keys as columns, with \<open>NaN\<close>
  where a row lacks a key; columns must all have the same length.
\<close>

fun pd_DataFrame :: "frame_data \<Rightarrow> error + dataframe" where
  "pd_DataFrame (Rows rs) =
    (let cols = unique (concat (map (map fst) rs))
     in Inr \<lparr>df_columns = cols,
             df_rows = map (\<lambda>r. map (\<lambda>c. case map_of r c of None \<Rightarrow> NaN | Some v \<Rightarrow> v) cols) rs\<rparr>)"
| "pd_DataFrame (Cols cs) =
    (case cs of
       [] \<Rightarrow> Inr \<lparr>df_columns = [], df_rows = []\<rparr>
     | (c, vs) # _ \<Rightarrow>
         if \<forall>ws \<in> set (map snd cs). length ws = length vs
         then Inr \<lparr>df_columns = map fst cs,
                   df_rows = map (\<lambda>i. map (\<lambda>ws. ws ! i) (map snd cs)) [0..<length vs]\<rparr>
         else Inl ValueError)"

text \<open>\<open>DataFrame.empty\<close>: no columns or no rows.\<close>

definition df_empty :: "dataframe \<Rightarrow> bool" where
  "df_empty df = (df_columns df = [] \<or> df_rows df = [])"

text \<open>\<open>df[col_names]\<close> with a list of labels; a label that is no column is a KeyError.\<close>

definition df_select :: "dataframe \<Rightarrow> string list \<Rightarrow> error + dataframe" where
  "df_select df names =
    (if \<forall>n \<in> set names. n \<in> set (df_columns df)
     then Inr \<lparr>df_columns = names,
               df_rows = map (\<lambda>r. map (cell_at (df_columns df) r) names) (df_rows df)\<rparr>
     else Inl KeyError)"

text \<open>
  \<open>df.assign(**{name: v})\<close> with a scalar: an existing column is overwritten, a new
  one is appended.
\<close>

definition df_assign :: "string \<Rightarrow> cell \<Rightarrow> dataframe \<Rightarrow> dataframe" where
  "df_assign name v df =
    (if name \<in> set (df_columns df)
     then \<lparr>df_columns = df_columns df,
           df_rows = map (\<lambda>r. map (\<lambda>(c, x). if c = name then v else x) (zip (df_columns df) r))
                       (df_rows df)\<rparr>
     else \<lparr>df_columns = df_columns df @ [name], df_rows = map (\<lambda>r. r @ [v]) (df_rows df)\<rparr>)"

text \<open>\<open>df.drop(name, 1)\<close>: drops a column; a label that is no column is a KeyError.\<close>

definition df_drop :: "string \<Rightarrow> dataframe \<Rightarrow> error + dataframe" where
  "df_drop name df =
    (if name \<in> set (df_columns df)
     then Inr \<lparr>df_columns = filter (\<lambda>c. c \<noteq> name) (df_columns df),
               df_rows = map (\<lambda>r. map snd (filter (\<lambda>(c, x). c \<noteq> name) (zip (df_columns df) r)))
                           (df_rows df)\<rparr>
     else Inl KeyError)"

text \<open>The cells of a row of the right frame outside the join columns.\<close>

definition right_part :: "string list \<Rightarrow> string list \<Rightarrow> cell list \<Rightarrow> cell list" where
  "right_part on rcols r = map snd (filter (\<lambda>(c, x). c \<notin> set on) (zip rcols r))"

text \<open>Whether a left and a right row agree on the join columns.\<close>

definition keys_match ::
  "string list \<Rightarrow> string list \<Rightarrow> string list \<Rightarrow> cell list \<Rightarrow> cell list \<Rightarrow> bool" where
  "keys_match on lcols rcols l r = (\<forall>k \<in> set on. cell_at lcols l k = cell_at rcols r k)"

text \<open>The kinds of join of \<open>DataFrame.merge\<close>.\<close>

datatype how = Left | Right | Inner | Outer

text \<open>
  The rows of a join on the columns \<open>on\<close>: the left columns, then the right columns
  that are not join columns. A row without a partner is filled with \<open>NaN\<close>. (pandas
  sorts the rows of an outer join by key; here the left rows come first.)
\<close>

definition join_rows ::
  "how \<Rightarrow> string list \<Rightarrow> dataframe \<Rightarrow> dataframe \<Rightarrow> cell list list" where
  "join_rows h on left right =
    (let lcols = df_columns left; rcols = df_columns right;
         matched = (\<lambda>l. map (\<lambda>r. l @ right_part on rcols r)
                        (filter (keys_match on lcols rcols l) (df_rows right)));
         left_only = (\<lambda>l. [l @ map (\<lambda>_. NaN) (filter (\<lambda>c. c \<notin> set on) rcols)]);
         right_only = (\<lambda>r. [map (\<lambda>c. if c \<in> set on then cell_at rcols r c else NaN) lcols
                             @ right_part on rcols r]);
         partners = (\<lambda>r. filter (\<lambda>l. keys_match on lcols rcols l r) (df_rows left))
     in case h of
          Inner \<Rightarrow> concat (map matched (df_rows left))
        | Left \<Rightarrow> concat (map (\<lambda>l. if matched l = [] then left_only l else matched l)
                            (df_rows left))
        | Right \<Rightarrow> concat (map (\<lambda>r. if partners r = [] then right_only r
                                      else map (\<lambda>l. l @ right_part on rcols r) (partners r))
                             (df_rows right))
        | Outer \<Rightarrow> concat (map (\<lambda>l. if matched l = [] then left_only l else matched l)
                             (df_rows left))
                   @ concat (map (\<lambda>r. if partners r = [] then right_only r else [])
                               (df_rows right)))"

definition df_join :: "how \<Rightarrow> string list \<Rightarrow> dataframe \<Rightarrow> dataframe \<Rightarrow> dataframe" where
  "df_join h on left right =
    \<lparr>df_columns = df_columns left @ filter (\<lambda>c. c \<notin> set on) (df_columns right),
     df_rows = join_rows h on left right\<rparr>"

text \<open>
  \<open>left.merge(right)\<close> with the defaults: an inner join on the columns the two
  frames share, and a MergeError when they share none.
\<close>

definition df_merge :: "dataframe \<Rightarrow> dataframe \<Rightarrow> error + dataframe" where
  "df_merge left right =
    (let on = filter (\<lambda>c. c \<in> set (df_columns right)) (df_columns left)
     in if on = [] then Inl MergeError else Inr (df_join Inner on left right))"

text \<open>\<open>df.fillna(default)\<close>, with \<open>fill\<close> for the default.\<close>

definition fillna :: "cell \<Rightarrow> dataframe \<Rightarrow> dataframe" where
  "fillna fill df =
    \<lparr>df_columns = df_columns df,
     df_rows = map (map (\<lambda>x. if x = NaN then fill else x)) (df_rows df)\<rparr>"

text \<open>\<open>pd.concat([a, b])\<close>: the rows of both over the union of the columns.\<close>

definition pd_concat :: "dataframe \<Rightarrow> dataframe \<Rightarrow> dataframe" where
  "pd_concat a b =
    (let cols = unique (df_columns a @ df_columns b)
     in \<lparr>df_columns = cols,
         df_rows = map (\<lambda>r. map (cell_at (df_columns a) r) cols) (df_rows a)
                   @ map (\<lambda>r. map (cell_at (df_columns b) r) cols) (df_rows b)\<rparr>)"

section \<open>Frame\<close>

text \<open>The instance variables of \<open>Frame\<close>: \<open>_dataframe\<close> and \<open>_col_types\<close>.\<close>

record frame =
  f_dataframe :: dataframe
  f_col_types :: "(string \<times> string list) list"

text \<open>\<open>Frame.__init__\<close>; \<open>process\<close> is the optional transform of the table.\<close>

definition frame_init ::
  "frame_data \<Rightarrow> (string \<times> string list) list \<Rightarrow> (dataframe \<Rightarrow> dataframe) option
    \<Rightarrow> error + frame" where
  "frame_init data type_hint process =
    (case pd_DataFrame data of
       Inl e \<Rightarrow> Inl e
     | Inr df \<Rightarrow>
         (let pd_frame = (case process of None \<Rightarrow> df | Some f \<Rightarrow> f df)
          in if \<exists>col \<in> set (df_columns pd_frame). map_of type_hint col = None
             then Inl ValueError
             else Inr \<lparr>f_dataframe = pd_frame, f_col_types = type_hint\<rparr>))"

text \<open>\<open>Frame.columns\<close>.\<close>

definition columns :: "frame \<Rightarrow> string list" where
  "columns self = df_columns (f_dataframe self)"

text \<open>
  The filter of \<open>Frame.pandas\<close> under \<open>ignore_populations\<close>: it keeps a name when
  \<open>'StatisticalPopulation' in self._col_types[name]\<close>.
\<close>

fun filter_populations ::
  "(string \<times> string list) list \<Rightarrow> string list \<Rightarrow> error + string list" where
  "filter_populations ct [] = Inr []"
| "filter_populations ct (name # names) =
    (case map_of ct name of
       None \<Rightarrow> Inl KeyError
     | Some ts \<Rightarrow>
         (case filter_populations ct names of
            Inl e \<Rightarrow> Inl e
          | Inr kept \<Rightarrow> Inr (if ''StatisticalPopulation'' \<in> set ts then name # kept else kept)))"

text \<open>\<open>Frame.pandas\<close>; \<open>col_names\<close> is \<open>None\<close> or a list.\<close>

definition frame_pandas :: "frame \<Rightarrow> string list option \<Rightarrow> bool \<Rightarrow> error + dataframe" where
  "frame_pandas self col_names ignore_populations =
    (let names1 = (case col_names of
                     None \<Rightarrow> columns self
                   | Some ns \<Rightarrow> if ns = [] then columns self else ns)
     in case (if ignore_populations then filter_populations (f_col_types self) names1
              else Inr names1) of
          Inl e \<Rightarrow> Inl e
        | Inr names2 \<Rightarrow> df_select (f_dataframe self) names2)"

text \<open>\<open>Frame._verify_col_add\<close>.\<close>

definition verify_col_add :: "frame \<Rightarrow> string \<Rightarrow> string option \<Rightarrow> error + unit" where
  "verify_col_add self new_col seed_col =
    (if new_col \<in> set (columns self) then Inl ValueError
     else if truthy seed_col
             \<and> (case seed_col of None \<Rightarrow> False | Some s \<Rightarrow> s \<notin> set (columns self))
       then Inl ValueError
     else Inr ())"

text \<open>
  \<open>Frame._verify_col_type_excludes\<close>. When a type is found, the line before the
  \<open>raise ValueError\<close> calls \<open>col_types.join(', ')\<close> on a list, which has no such
  method: an AttributeError.
\<close>

definition verify_col_type_excludes :: "frame \<Rightarrow> string \<Rightarrow> string list \<Rightarrow> error + unit" where
  "verify_col_type_excludes self col_name col_types =
    (if col_types = [] then Inr ()
     else case map_of (f_col_types self) col_name of
       None \<Rightarrow> Inl KeyError
     | Some ts \<Rightarrow>
         if \<exists>t \<in> set col_types. t \<in> set ts then Inl AttributeError else Inr ())"

text \<open>The error checking at the head of \<open>Frame.expand\<close>.\<close>

definition expand_error_checking :: "frame \<Rightarrow> string \<Rightarrow> string \<Rightarrow> error + unit" where
  "expand_error_checking self seed_col_name new_col_name =
    (case verify_col_add self new_col_name (Some seed_col_name) of
       Inl e \<Rightarrow> Inl e
     | Inr _ \<Rightarrow> verify_col_type_excludes self seed_col_name [''Text''])"

text \<open>\<open>Frame._update_col_types\<close>, for type lists.\<close>

definition update_col_types ::
  "(string \<times> string list) list \<Rightarrow> (string \<times> string list) list
    \<Rightarrow> (string \<times> string list) list" where
  "update_col_types self_types new_col_types =
    foldl (\<lambda>ct col.
             (case map_of new_col_types col of
                None \<Rightarrow> ct
              | Some new_ts \<Rightarrow>
                  dict_set col
                    (case map_of ct col of
                       Some old_ts \<Rightarrow> unique (new_ts @ old_ts)
                     | None \<Rightarrow> new_ts) ct))
      self_types (map fst new_col_types)"

text \<open>
  The type check of \<open>Frame.merge\<close> over the common columns: the two type lists must
  be equal as sets.
\<close>

fun check_merge_types ::
  "(string \<times> string list) list \<Rightarrow> (string \<times> string list) list \<Rightarrow> string list
    \<Rightarrow> error option" where
  "check_merge_types st ft [] = None"
| "check_merge_types st ft (col # cols) =
    (case (map_of st col, map_of ft col) of
       (Some a, Some b) \<Rightarrow>
         if set a \<noteq> set b then Some ValueError else check_merge_types st ft cols
     | _ \<Rightarrow> Some KeyError)"

text \<open>\<open>Frame.merge\<close>: the exception raised, or the frame after the call.\<close>

definition frame_merge :: "frame \<Rightarrow> frame \<Rightarrow> how \<Rightarrow> cell \<Rightarrow> error + frame" where
  "frame_merge self other h fill =
    (let merge_on = filter (\<lambda>c. c \<in> set (columns other)) (unique (columns self))
     in if df_empty (f_dataframe self) then
          Inr \<lparr>f_dataframe = pd_concat (f_dataframe self) (f_dataframe other),
               f_col_types = update_col_types [] (f_col_types other)\<rparr>
        else if length merge_on = 0 then
          (let cross_on = concat (columns self @ columns other);
               curr_frame = df_assign cross_on (Num 1) (f_dataframe self);
               new_frame = df_assign cross_on (Num 1) (f_dataframe other)
           in case df_merge curr_frame new_frame of
                Inl e \<Rightarrow> Inl e
              | Inr merged \<Rightarrow>
                  (case df_drop cross_on merged of
                     Inl e \<Rightarrow> Inl e
                   | Inr dropped \<Rightarrow>
                       Inr \<lparr>f_dataframe = dropped,
                            f_col_types = update_col_types (f_col_types self)
                                            (f_col_types other)\<rparr>))
        else
          (case check_merge_types (f_col_types self) (f_col_types other) merge_on of
             Some e \<Rightarrow> Inl e
           | None \<Rightarrow>
               Inr \<lparr>f_dataframe = fillna fill
                                    (df_join h merge_on (f_dataframe self) (f_dataframe other)),
                    f_col_types = update_col_types (f_col_types self) (f_col_types other)\<rparr>))"

text \<open>Frames used in the examples.\<close>

definition places :: frame where
  "places = \<lparr>f_dataframe = \<lparr>df_columns = [''city'', ''pop''],
                             df_rows = [[Str ''geoId/0649670'', Str ''dc/p/x1'']]\<rparr>,
             f_col_types = [(''city'', [''City'']), (''pop'', [''StatisticalPopulation''])]\<rparr>"

definition names :: frame where
  "names = \<lparr>f_dataframe = \<lparr>df_columns = [''name''], df_rows = [[Str ''Mountain View'']]\<rparr>,
            f_col_types = [(''name'', [''Text''])]\<rparr>"

definition two_rows :: frame where
  "two_rows = \<lparr>f_dataframe = \<lparr>df_columns = [''a''], df_rows = [[Num 10], [Num 20]]\<rparr>,
               f_col_types = [(''a'', [''T''])]\<rparr>"

definition three_rows :: frame where
  "three_rows = \<lparr>f_dataframe = \<lparr>df_columns = [''''], df_rows = [[Num 7], [Num 8], [Num 9]]\<rparr>,
                 f_col_types = [('''', [''U''])]\<rparr>"

definition three_rows_b :: frame where
  "three_rows_b = \<lparr>f_dataframe = \<lparr>df_columns = [''b''], df_rows = [[Num 7], [Num 8], [Num 9]]\<rparr>,
                   f_col_types = [(''b'', [''U''])]\<rparr>"

section \<open>Node construction\<close>

lemma node_init_dcid:
  assumes "node_init svc kw = (cs, Inr a)" and "kw_node kw = None"
    and "kw_dcid (id_alias kw) = Some d"
  shows "n_dcid a = Some d \<and> n_value a = None"
  using assms
  by (auto simp: node_init_def Let_def split: if_splits option.splits sum.splits)

lemma node_init_value:
  assumes "node_init svc kw = (cs, Inr a)" and "kw_node kw = None"
    and "kw_value kw = Some v"
  shows "n_dcid a = None \<and> n_value a = Some v"
  using assms
  by (auto simp: node_init_def id_alias_def Let_def
      split: if_splits option.splits sum.splits)

text \<open>
  C10. The constructor takes the keyword \<open>id\<close> for \<open>dcid\<close>: when \<open>id\<close> is given and
  none of \<open>node\<close>, \<open>dcid\<close>, \<open>value\<close> is, the constructor raises no error of its
  own (the only failure is a failed \<open>get_node\<close> request, sent when \<open>name\<close> or
  \<open>types\<close> is missing), and the node built has the given id as its dcid and no
  value.
\<close>

theorem node_init_id_alias:
  assumes "kw_node kw = None" and "kw_id kw = Some i"
    and "kw_dcid kw = None" and "kw_value kw = None"
  shows "(case snd (node_init svc kw) of
            Inr a \<Rightarrow> n_dcid a = Some i \<and> n_value a = None
          | Inl e \<Rightarrow> (kw_name kw = None \<or> kw_types kw = None) \<and> get_node svc i = Inl e)"
  using assms
  by (auto simp: node_init_def id_alias_def Let_def split: sum.splits option.splits)

theorem node_init_id_alias_witness:
  "node_init failing_service
     (no_kwargs\<lparr>kw_id := Some ''geoId/06'', kw_name := Some ''California'',
                 kw_types := Some [''State'']\<rparr>)
   = ([], Inr (Node (Some ''geoId/06'') (Some ''California'') None [''State''] [] []))"
  using node_init_id_alias [of "no_kwargs\<lparr>kw_id := Some ''geoId/06'',
      kw_name := Some ''California'', kw_types := Some [''State'']\<rparr>" "''geoId/06''"
      failing_service]
  by (simp add: node_init_def id_alias_def no_kwargs_def Let_def)

section \<open>Node equality and hashing\<close>

text \<open>
  When at least one of the two identifiers is not empty, two nodes constructed with
  identifiers are equal exactly when the identifiers are equal; and a node
  constructed with a value is equal to no node at all, another leaf with the same
  value included.
\<close>

lemma node_eq_iff_dcid:
  "(node_init svc kwa = (csa, Inr a) \<and> kw_node kwa = None
      \<and> kw_dcid (id_alias kwa) = Some da
      \<and> node_init svc kwb = (csb, Inr b) \<and> kw_node kwb = None
      \<and> kw_dcid (id_alias kwb) = Some db \<and> (da \<noteq> [] \<or> db \<noteq> [])
    \<longrightarrow> (node_eq a b \<longleftrightarrow> da = db))
   \<and> (node_init svc kwl = (csl, Inr l) \<and> kw_node kwl = None \<and> kw_value kwl = Some v
    \<longrightarrow> \<not> node_eq l x)"
proof (intro conjI impI)
  assume h: "node_init svc kwa = (csa, Inr a) \<and> kw_node kwa = None
      \<and> kw_dcid (id_alias kwa) = Some da
      \<and> node_init svc kwb = (csb, Inr b) \<and> kw_node kwb = None
      \<and> kw_dcid (id_alias kwb) = Some db \<and> (da \<noteq> [] \<or> db \<noteq> [])"
  then have "n_dcid a = Some da" and "n_dcid b = Some db"
    using node_init_dcid by blast+
  with h show "node_eq a b \<longleftrightarrow> da = db"
    by (auto simp: node_eq_def truthy_def)
next
  assume "node_init svc kwl = (csl, Inr l) \<and> kw_node kwl = None \<and> kw_value kwl = Some v"
  then have "n_dcid l = None"
    using node_init_value by blast
  then show "\<not> node_eq l x"
    by (simp add: node_eq_def truthy_def)
qed

lemma node_eq_examples:
  "node_eq ca (Node (Some ''geoId/06'') (Some ''CA'') None [] [] [])
   \<and> \<not> node_eq ca us \<and> \<not> node_eq leaf42 leaf42 \<and> \<not> node_eq leaf42 ca"
  by (simp add: node_eq_def truthy_def ca_def us_def leaf42_def)

text \<open>
  C2. The docstring of \<open>__eq__\<close> says that two nodes are equal if and only if they
  have the same dcid. The node built by \<open>Node(dcid='', name='n', types=[])\<close> is not
  equal to itself: \<open>__eq__\<close> tests the truthiness of \<open>_dcid\<close>, and the empty string
  is falsy.
\<close>

theorem node_eq_empty_dcid:
  "node_init failing_service
     (no_kwargs\<lparr>kw_dcid := Some [], kw_name := Some ''n'', kw_types := Some []\<rparr>)
   = ([], Inr (Node (Some []) (Some ''n'') None [] [] []))
   \<and> \<not> node_eq (Node (Some []) (Some ''n'') None [] [] [])
            (Node (Some []) (Some ''n'') None [] [] [])"
  by (simp add: node_init_def id_alias_def no_kwargs_def Let_def node_eq_def truthy_def)

text \<open>
  Hashing of well-formed nodes: a node constructed with an identifier hashes the
  string \<open>dcid:\<close> followed by the identifier, and a node constructed with a non-empty
  value hashes \<open>value:\<close> followed by the value; the two strings differ.
\<close>

lemma node_hash_dcid:
  assumes "node_init svc kw = (cs, Inr a)" and "kw_node kw = None"
    and "kw_dcid (id_alias kw) = Some d"
  shows "node_hash H a = H (''dcid:'' @ d)"
  using node_init_dcid [OF assms]
  by (simp add: node_hash_def hash_key_def is_leaf_def truthy_def format_opt_def)

lemma node_hash_value:
  assumes "node_init svc kw = (cs, Inr a)" and "kw_node kw = None"
    and "kw_value kw = Some v" and "v \<noteq> []"
  shows "node_hash H a = H (''value:'' @ v)"
  using node_init_value [OF assms(1-3)] assms(4)
  by (simp add: node_hash_def hash_key_def is_leaf_def truthy_def format_opt_def)

lemma hash_prefixes_differ: "''dcid:'' @ x \<noteq> ''value:'' @ x"
  by simp

text \<open>
  C3. The docstring of \<open>__hash__\<close> says that a leaf hashes \<open>value:\<close> followed by its
  value. For the leaf \<open>Node(value='')\<close> the code does not: \<open>is_leaf\<close> tests the
  truthiness of \<open>_value\<close>, so the node takes the other branch and hashes the
  string \<open>dcid:None\<close>.
\<close>

theorem node_hash_empty_value:
  "node_init failing_service (no_kwargs\<lparr>kw_value := Some []\<rparr>)
   = ([], Inr (Node None None (Some []) [] [] []))
   \<and> node_hash H (Node None None (Some []) [] [] []) = H ''dcid:None''
   \<and> ''dcid:None'' \<noteq> ''value:'' @ []"
  by (simp add: node_init_def id_alias_def no_kwargs_def Let_def node_hash_def
      hash_key_def is_leaf_def truthy_def format_opt_def)

section \<open>Query rows\<close>

text \<open>
  A row with more cells than the header has columns, every cell with a value, ends
  in IndexError: the guard \<open>idx > len(header)\<close> lets the index \<open>len(header)\<close>
  through to \<open>header[idx]\<close>.
\<close>

lemma row_cells_overlong:
  "idx \<le> length hdr \<Longrightarrow> length hdr < idx + length cells \<Longrightarrow> \<forall>c \<in> set cells. c \<noteq> None
    \<Longrightarrow> row_cells hdr idx cells m = Inl IndexError"
proof (induction cells arbitrary: idx m)
  case Nil
  then show ?case by simp
next
  case (Cons c cells)
  then obtain v where v: "c = Some v" by auto
  show ?case
  proof (cases "idx < length hdr")
    case True
    with Cons v show ?thesis by simp
  next
    case False
    with Cons v show ?thesis by simp
  qed
qed

lemma row_cells_never_unexpected:
  "idx \<le> length hdr \<Longrightarrow> row_cells hdr idx cells m = Inl RuntimeError
    \<Longrightarrow> \<exists>i < length cells. cells ! i = None \<and> idx + i \<le> length hdr"
proof (induction cells arbitrary: idx m)
  case Nil
  then show ?case by simp
next
  case (Cons c cells)
  show ?case
  proof (cases c)
    case None
    then show ?thesis using Cons.prems by auto
  next
    case (Some v)
    with Cons.prems have lt: "idx < length hdr"
      by (auto split: if_splits)
    with Cons.prems Some have "row_cells hdr (Suc idx) cells (dict_set (hdr ! idx) v m) = Inl RuntimeError"
      by simp
    with Cons.IH [of "Suc idx"] lt obtain i where "i < length cells" "cells ! i = None" "Suc idx + i \<le> length hdr"
      by auto
    then show ?thesis by (intro exI [of _ "Suc i"]) auto
  qed
qed

text \<open>
  C4. The specification and the message \<open>unexpected cell\<close> say that a row with more
  cells than header columns ends in a RuntimeError. With header \<open>['a']\<close> and the row
  \<open>[{'value': '1'}, {'value': '2'}]\<close> the code raises IndexError instead.
\<close>

theorem query_rows_extra_cell:
  "query_rows \<lparr>header = [''a''], rows = [[Some ''1'', Some ''2'']]\<rparr> None
   = ([], Some IndexError)"
  by (simp add: query_rows_def)

section \<open>Merging into the property caches\<close>








































text \<open>
  The cache after that call, listed in insertion order: the second USA node is
  dropped, the leaves are kept.
\<close>

lemma update_props_example:
  "cached (n_out_props (update_props length_hash insertion_order home []
      [(''containedInPlace'', [us2, leaf42, ca])])) ''containedInPlace''
   = [us, leaf42, leaf42, ca]"
  by (simp add: update_props_def update_cache_def cached_def set_union_def py_set_def
      set_add_def node_same_def node_eq_def node_hash_def hash_key_def is_leaf_def
      truthy_def format_opt_def home_def us_def us2_def ca_def leaf42_def length_hash_def
      insertion_order_def)

section \<open>Property values\<close>













section \<open>Frame construction\<close>

text \<open>
  C7. Once pandas has built the table from \<open>data\<close> (rows or columns) and the
  optional \<open>process\<close> has been applied, \<open>Frame.__init__\<close> raises ValueError when
  some column of the table has no entry in \<open>type_hint\<close>, and otherwise succeeds
  with that table and that type hint; rows \<open>[{'a': 1}]\<close> with the type hint \<open>{}\<close>
  fail. An error of \<open>pd.DataFrame\<close> itself is passed on.
\<close>

theorem frame_init_typed:
  "(pd_DataFrame data = Inr df
      \<and> pd_frame = (case process of None \<Rightarrow> df | Some f \<Rightarrow> f df)
    \<longrightarrow> frame_init data type_hint process =
         (if \<exists>col \<in> set (df_columns pd_frame). col \<notin> fst ` set type_hint
          then Inl ValueError
          else Inr \<lparr>f_dataframe = pd_frame, f_col_types = type_hint\<rparr>))
   \<and> (pd_DataFrame data = Inl e \<longrightarrow> frame_init data type_hint process = Inl e)"
  by (simp add: frame_init_def Let_def map_of_eq_None_iff)

theorem frame_init_typed_witness:
  "frame_init (Rows [[(''a'', Num 1)]]) [] None = Inl ValueError
   \<and> frame_init (Rows [[(''a'', Num 1)]]) [(''a'', [''Number''])] None
       = Inr \<lparr>f_dataframe = \<lparr>df_columns = [''a''], df_rows = [[Num 1]]\<rparr>,
              f_col_types = [(''a'', [''Number''])]\<rparr>
   \<and> frame_init (Cols [(''a'', [Num 1, Num 2]), (''b'', [Num 3])])
         [(''a'', [''Number'']), (''b'', [''Number''])] None = Inl ValueError"
  using frame_init_typed [of "Rows [[(''a'', Num 1)]]"
      "\<lparr>df_columns = [''a''], df_rows = [[Num 1]]\<rparr>"
      "\<lparr>df_columns = [''a''], df_rows = [[Num 1]]\<rparr>" None "[]"]
    frame_init_typed [of "Rows [[(''a'', Num 1)]]"
      "\<lparr>df_columns = [''a''], df_rows = [[Num 1]]\<rparr>"
      "\<lparr>df_columns = [''a''], df_rows = [[Num 1]]\<rparr>" None "[(''a'', [''Number''])]"]
    frame_init_typed [of "Cols [(''a'', [Num 1, Num 2]), (''b'', [Num 3])]" _ _ None
      "[(''a'', [''Number'']), (''b'', [''Number''])]" ValueError]
  by (simp add: unique_def)

section \<open>Frame export\<close>

text \<open>
  Under \<open>ignore_populations\<close> the names kept are those whose types contain
  \<open>StatisticalPopulation\<close>, whether or not the caller gave the names.
\<close>

lemma filter_populations_keeps:
  "filter_populations ct ns = Inr kept \<Longrightarrow>
   kept = filter (\<lambda>n. \<exists>ts. map_of ct n = Some ts \<and> ''StatisticalPopulation'' \<in> set ts) ns"
  by (induction ns arbitrary: kept) (auto split: option.splits sum.splits)

text \<open>
  C5. The docstring of \<open>Frame.pandas\<close> says that \<open>ignore_populations\<close> ignores the
  columns of type \<open>StatisticalPopulation\<close> and that \<open>col_names\<close> takes precedence.
  On a frame with a \<open>City\<close> column \<open>city\<close> and a \<open>StatisticalPopulation\<close> column
  \<open>pop\<close> the code does the opposite: with no column names it returns the column
  \<open>pop\<close> alone, and with the explicit names \<open>['city']\<close> it returns no column.
\<close>

theorem frame_pandas_ignore_populations:
  "frame_pandas places None True
     = Inr \<lparr>df_columns = [''pop''], df_rows = [[Str ''dc/p/x1'']]\<rparr>
   \<and> frame_pandas places (Some [''city'']) True = Inr \<lparr>df_columns = [], df_rows = [[]]\<rparr>"
  by (simp add: frame_pandas_def places_def columns_def df_select_def cell_at_def)

section \<open>Frame expansion\<close>

text \<open>The two checks of \<open>_verify_col_add\<close> do raise ValueError.\<close>

lemma expand_new_column_exists:
  "new_col_name \<in> set (columns self)
    \<Longrightarrow> expand_error_checking self seed_col_name new_col_name = Inl ValueError"
  by (simp add: expand_error_checking_def verify_col_add_def)

lemma expand_seed_missing:
  "seed_col_name \<noteq> [] \<Longrightarrow> seed_col_name \<notin> set (columns self)
    \<Longrightarrow> expand_error_checking self seed_col_name new_col_name = Inl ValueError"
  by (simp add: expand_error_checking_def verify_col_add_def truthy_def)

lemma expand_text_seed_general:
  "new_col_name \<notin> set (columns self) \<Longrightarrow> seed_col_name \<in> set (columns self)
    \<Longrightarrow> map_of (f_col_types self) seed_col_name = Some ts \<Longrightarrow> ''Text'' \<in> set ts
    \<Longrightarrow> expand_error_checking self seed_col_name new_col_name = Inl AttributeError"
  by (simp add: expand_error_checking_def verify_col_add_def verify_col_type_excludes_def
      truthy_def)

text \<open>
  C9. A seed column typed \<open>Text\<close> must make \<open>expand\<close> raise ValueError, and
  \<open>_verify_col_type_excludes\<close> has the \<open>raise ValueError\<close> for it. On a frame whose
  column \<open>name\<close> has the types \<open>['Text']\<close>, \<open>expand\<close> with that seed column raises
  AttributeError instead, from \<open>col_types.join(', ')\<close> on a list.
\<close>

theorem expand_text_seed:
  "expand_error_checking names ''name'' ''label'' = Inl AttributeError"
  by (simp add: expand_error_checking_def verify_col_add_def verify_col_type_excludes_def
      names_def columns_def truthy_def)

section \<open>Frame merge\<close>

text \<open>
  The cross join of two frames without a common column, when the join key, the
  concatenation of all column names, is not itself one of the column names: the
  result has the columns of both and pairs every row of \<open>self\<close> with every row of
  the other frame, so it has \<open>m * n\<close> rows, and the key is gone.
\<close>

lemma cell_at_new_column:
  "length cols = length row \<Longrightarrow> k \<notin> set cols \<Longrightarrow> cell_at (cols @ [k]) (row @ [v]) k = v"
  by (simp add: cell_at_def map_add_def map_of_zip_is_None [THEN iffD2])

lemma zip_keeps_other_columns:
  "k \<notin> set cols \<Longrightarrow> filter (\<lambda>(c, x). c \<noteq> k) (zip cols r) = zip cols r"
  by (rule filter_True) (auto dest: set_zip_leftD)

lemma filter_other_columns: "k \<notin> set cols \<Longrightarrow> filter (\<lambda>c. c \<noteq> k) cols = cols"
  by (induction cols) auto

lemma right_part_new_column:
  "length cols = length r \<Longrightarrow> k \<notin> set cols \<Longrightarrow> right_part [k] (cols @ [k]) (r @ [v]) = r"
  by (simp add: right_part_def zip_keeps_other_columns)

lemma drop_middle_column:
  "length cs = length l \<Longrightarrow> length co = length r \<Longrightarrow> k \<notin> set cs \<Longrightarrow> k \<notin> set co \<Longrightarrow>
   map snd (filter (\<lambda>(c, x). c \<noteq> k) (zip (cs @ k # co) (l @ v # r))) = l @ r"
  by (simp add: zip_keeps_other_columns)

lemma length_cross: "length (concat (map (\<lambda>l. map (f l) ys) xs)) = length xs * length ys"
  by (induction xs) auto

lemma cross_merge:
  assumes wl: "\<forall>l \<in> set lrows. length l = length lcols"
    and wr: "\<forall>r \<in> set rrows. length r = length rcols"
    and kl: "k \<notin> set lcols" and kr: "k \<notin> set rcols"
    and dj: "set lcols \<inter> set rcols = {}"
  shows "df_merge (df_assign k v \<lparr>df_columns = lcols, df_rows = lrows\<rparr>)
                  (df_assign k v \<lparr>df_columns = rcols, df_rows = rrows\<rparr>)
         = Inr \<lparr>df_columns = lcols @ k # rcols,
                 df_rows = concat (map (\<lambda>l. map (\<lambda>r. l @ v # r) rrows) lrows)\<rparr>"
proof -
  have on: "filter (\<lambda>c. c \<in> set (rcols @ [k])) (lcols @ [k]) = [k]"
    using dj kl by (auto simp: filter_empty_conv)
  have cols: "filter (\<lambda>c. c \<notin> set [k]) (rcols @ [k]) = rcols"
    using kr by (auto intro: filter_True)
  have m: "keys_match [k] (lcols @ [k]) (rcols @ [k]) (l @ [v]) (r @ [v])"
    if "l \<in> set lrows" "r \<in> set rrows" for l r
    using that wl wr kl kr by (simp add: keys_match_def cell_at_new_column)
  have f: "filter (keys_match [k] (lcols @ [k]) (rcols @ [k]) (l @ [v]))
             (map (\<lambda>r. r @ [v]) rrows) = map (\<lambda>r. r @ [v]) rrows"
    if "l \<in> set lrows" for l
    using that m by (auto intro: filter_True)
  have row: "right_part [k] (rcols @ [k]) (r @ [v]) = r" if "r \<in> set rrows" for r
    using that wr kr by (simp add: right_part_new_column)
  have rows: "join_rows Inner [k]
       \<lparr>df_columns = lcols @ [k], df_rows = map (\<lambda>r. r @ [v]) lrows\<rparr>
       \<lparr>df_columns = rcols @ [k], df_rows = map (\<lambda>r. r @ [v]) rrows\<rparr>
     = concat (map (\<lambda>l. map (\<lambda>r. l @ v # r) rrows) lrows)"
    unfolding join_rows_def Let_def
    by (simp add: o_def f row cong: map_cong)
  let ?L = "df_assign k v \<lparr>df_columns = lcols, df_rows = lrows\<rparr>"
  let ?R = "df_assign k v \<lparr>df_columns = rcols, df_rows = rrows\<rparr>"
  have a1: "?L = \<lparr>df_columns = lcols @ [k], df_rows = map (\<lambda>r. r @ [v]) lrows\<rparr>"
    using kl by (simp add: df_assign_def)
  have a2: "?R = \<lparr>df_columns = rcols @ [k], df_rows = map (\<lambda>r. r @ [v]) rrows\<rparr>"
    using kr by (simp add: df_assign_def)
  have onv: "filter (\<lambda>c. c \<in> set (df_columns ?R)) (df_columns ?L) = [k]"
    unfolding a1 a2 using on by simp
  have "df_merge ?L ?R = Inr (df_join Inner [k] ?L ?R)"
    unfolding df_merge_def Let_def onv by simp
  also have "df_join Inner [k] ?L ?R
      = \<lparr>df_columns = lcols @ k # rcols,
         df_rows = concat (map (\<lambda>l. map (\<lambda>r. l @ v # r) rrows) lrows)\<rparr>"
    unfolding a1 a2 df_join_def using cols rows by simp
  finally show ?thesis .
qed

lemma cross_drop:
  assumes wl: "\<forall>l \<in> set lrows. length l = length lcols"
    and wr: "\<forall>r \<in> set rrows. length r = length rcols"
    and kl: "k \<notin> set lcols" and kr: "k \<notin> set rcols"
  shows "df_drop k \<lparr>df_columns = lcols @ k # rcols,
                       df_rows = concat (map (\<lambda>l. map (\<lambda>r. l @ v # r) rrows) lrows)\<rparr>
         = Inr \<lparr>df_columns = lcols @ rcols,
                 df_rows = concat (map (\<lambda>l. map (\<lambda>r. l @ r) rrows) lrows)\<rparr>"
proof -
  have "map (\<lambda>row. map snd (filter (\<lambda>(c, x). c \<noteq> k) (zip (lcols @ k # rcols) row)))
          (map (\<lambda>r. l @ v # r) rrows) = map (\<lambda>r. l @ r) rrows"
    if "l \<in> set lrows" for l
    using that wl wr kl kr by (simp add: zip_keeps_other_columns)
  then have "map (\<lambda>row. map snd (filter (\<lambda>(c, x). c \<noteq> k) (zip (lcols @ k # rcols) row)))
          (concat (map (\<lambda>l. map (\<lambda>r. l @ v # r) rrows) lrows))
        = concat (map (\<lambda>l. map (\<lambda>r. l @ r) rrows) lrows)"
    by (simp add: map_concat o_def cong: map_cong)
  moreover have "filter (\<lambda>c. c \<noteq> k) (lcols @ k # rcols) = lcols @ rcols"
    using kl kr by (simp add: filter_other_columns)
  ultimately show ?thesis by (simp add: df_drop_def)
qed

lemma frame_merge_cross_join:
  assumes wl: "\<forall>l \<in> set (df_rows (f_dataframe self)). length l = length (columns self)"
    and wr: "\<forall>r \<in> set (df_rows (f_dataframe other)). length r = length (columns other)"
    and ne: "\<not> df_empty (f_dataframe self)"
    and dj: "set (columns self) \<inter> set (columns other) = {}"
    and fresh: "concat (columns self @ columns other) \<notin> set (columns self) \<union> set (columns other)"
  shows "frame_merge self other h fill =
     Inr \<lparr>f_dataframe =
            \<lparr>df_columns = columns self @ columns other,
             df_rows = concat (map (\<lambda>l. map (\<lambda>r. l @ r) (df_rows (f_dataframe other)))
                                (df_rows (f_dataframe self)))\<rparr>,
          f_col_types = update_col_types (f_col_types self) (f_col_types other)\<rparr>"
proof -
  obtain lcols lrows where s: "f_dataframe self = \<lparr>df_columns = lcols, df_rows = lrows\<rparr>"
    by (cases "f_dataframe self") auto
  obtain rcols rrows where t: "f_dataframe other = \<lparr>df_columns = rcols, df_rows = rrows\<rparr>"
    by (cases "f_dataframe other") auto
  let ?k = "concat (lcols @ rcols)"
  have on: "filter (\<lambda>c. c \<in> set rcols) (unique lcols) = []"
    using dj s t by (auto simp: filter_empty_conv columns_def unique_def)
  have m: "df_merge (df_assign ?k (Num 1) \<lparr>df_columns = lcols, df_rows = lrows\<rparr>)
                  (df_assign ?k (Num 1) \<lparr>df_columns = rcols, df_rows = rrows\<rparr>)
         = Inr \<lparr>df_columns = lcols @ ?k # rcols,
                 df_rows = concat (map (\<lambda>l. map (\<lambda>r. l @ Num 1 # r) rrows) lrows)\<rparr>"
    using wl wr dj fresh s t by (intro cross_merge) (auto simp: columns_def)
  have d: "df_drop ?k \<lparr>df_columns = lcols @ ?k # rcols,
                       df_rows = concat (map (\<lambda>l. map (\<lambda>r. l @ Num 1 # r) rrows) lrows)\<rparr>
         = Inr \<lparr>df_columns = lcols @ rcols,
                 df_rows = concat (map (\<lambda>l. map (\<lambda>r. l @ r) rrows) lrows)\<rparr>"
    using wl wr fresh s t by (intro cross_drop) (auto simp: columns_def)
  show ?thesis
    using ne on m d s t by (simp add: frame_merge_def columns_def Let_def)
qed

lemma frame_merge_cross_join_rows:
  assumes "\<forall>l \<in> set (df_rows (f_dataframe self)). length l = length (columns self)"
    and "\<forall>r \<in> set (df_rows (f_dataframe other)). length r = length (columns other)"
    and "\<not> df_empty (f_dataframe self)"
    and "set (columns self) \<inter> set (columns other) = {}"
    and "concat (columns self @ columns other) \<notin> set (columns self) \<union> set (columns other)"
  shows "\<exists>result. frame_merge self other h fill = Inr result
     \<and> length (df_rows (f_dataframe result))
         = length (df_rows (f_dataframe self)) * length (df_rows (f_dataframe other))
     \<and> concat (columns self @ columns other) \<notin> set (columns result)"
  using frame_merge_cross_join [OF assms, of h fill] assms(5)
  by (simp add: length_cross columns_def)

lemma frame_merge_cross_join_example:
  "frame_merge two_rows three_rows_b Left (Str [])
   = Inr \<lparr>f_dataframe = \<lparr>df_columns = [''a'', ''b''],
             df_rows = [[Num 10, Num 7], [Num 10, Num 8], [Num 10, Num 9],
                        [Num 20, Num 7], [Num 20, Num 8], [Num 20, Num 9]]\<rparr>,
           f_col_types = [(''a'', [''T'']), (''b'', [''U''])]\<rparr>"
  by (simp add: frame_merge_def two_rows_def three_rows_b_def columns_def unique_def
      df_empty_def df_assign_def df_merge_def df_join_def join_rows_def keys_match_def
      right_part_def cell_at_def df_drop_def update_col_types_def Let_def)

text \<open>
  C8. The comment in \<open>Frame.merge\<close> calls the join key a unique dummy column name,
  but the concatenation of the column names is not always one. With \<open>self\<close> of
  two rows under the column \<open>a\<close> and the other frame of three rows under the column
  named by the empty string, the key is \<open>a\<close>: \<open>assign\<close> overwrites the column
  \<open>a\<close> of \<open>self\<close> with the key and \<open>drop\<close> removes it. The six rows of the result
  hold the values of the other frame only; no row of \<open>self\<close> is in it.
\<close>

theorem frame_merge_key_collision:
  "frame_merge two_rows three_rows Left (Str [])
   = Inr \<lparr>f_dataframe = \<lparr>df_columns = [[]],
             df_rows = [[Num 7], [Num 8], [Num 9], [Num 7], [Num 8], [Num 9]]\<rparr>,
           f_col_types = [(''a'', [''T'']), ([], [''U''])]\<rparr>"
  by (simp add: frame_merge_def two_rows_def three_rows_def columns_def unique_def
      df_empty_def df_assign_def df_merge_def df_join_def join_rows_def keys_match_def
      right_part_def cell_at_def df_drop_def update_col_types_def Let_def)

end
